theory Spec2Isabelle
  imports Main
begin

section \<open>The relational store\<close>

text \<open>
  The backend keeps all of its state in tables of a relational store and reaches them
  through one client (created with the service key, so row-level policies do not apply to
  it). A table is modelled as the list of its rows. Identifiers are UUIDs, which the code
  only ever compares for equality.

  Reads are answered from the table. A query that ends in \<^verbatim>\<open>.single()\<close> yields its row
  when exactly one row matches and no data (\<^verbatim>\<open>null\<close>) otherwise. Where a handler tests
  the error of a write (\<^verbatim>\<open>if (error) throw error\<close>), the outcome of that write is an
  argument of the model: \<open>True\<close> when the store performed it.
\<close>

type_synonym uuid = string

fun single :: "'a list \<Rightarrow> 'a option" where
  "single [x] = Some x"
| "single _ = None"

subsection \<open>Table \<^verbatim>\<open>family_members\<close>\<close>

datatype role = Admin | Editor | Viewer

datatype member_status = Active | Pending | Inactive

record permissions =
  can_view :: bool
  can_edit :: bool
  can_delete :: bool

text \<open>
  The columns of \<^verbatim>\<open>family_members\<close> that the handlers read or write. Every writer in the
  repository stores a complete permissions object, so the column is a record of three flags.
\<close>

record family_member =
  fm_id :: uuid
  fm_parent_id :: uuid
  fm_user_id :: uuid
  fm_role :: role
  fm_permissions :: permissions
  fm_status :: member_status
  fm_invited_by :: "uuid option"
  fm_accepted_at :: "int option"

text \<open>The three queries on \<^verbatim>\<open>family_members\<close> that the family routes repeat.\<close>

definition member_by_id :: "uuid \<Rightarrow> family_member list \<Rightarrow> family_member option" where
  "member_by_id memberId fms = single (filter (\<lambda>r. fm_id r = memberId) fms)"

definition membership_of :: "uuid \<Rightarrow> uuid \<Rightarrow> family_member list \<Rightarrow> family_member option" where
  "membership_of userId parentId fms =
     single (filter (\<lambda>r. fm_parent_id r = parentId \<and> fm_user_id r = userId) fms)"

definition active_admins :: "uuid \<Rightarrow> family_member list \<Rightarrow> family_member list" where
  "active_admins parentId fms =
     filter (\<lambda>r. fm_parent_id r = parentId \<and> fm_role r = Admin \<and> fm_status r = Active) fms"

text \<open>
  The admin test of the family routes: the requester's membership for the care-recipient,
  looked up by \<^verbatim>\<open>parent_id\<close> and \<^verbatim>\<open>user_id\<close> only, exists and has role \<^verbatim>\<open>admin\<close>
  (\<^verbatim>\<open>adminCheck?.role === 'admin'\<close>).
\<close>

definition holds_admin_role :: "uuid \<Rightarrow> uuid \<Rightarrow> family_member list \<Rightarrow> bool" where
  "holds_admin_role userId parentId fms =
     (case membership_of userId parentId fms of
        None \<Rightarrow> False
      | Some adminCheck \<Rightarrow> fm_role adminCheck = Admin)"

subsection \<open>Table \<^verbatim>\<open>profiles\<close>\<close>

record profile =
  pr_id :: uuid
  pr_email :: string

section \<open>Family routes\<close>

text \<open>
  What a handler answers. Each constructor is one of the responses the family routes send;
  \<open>status_code\<close> gives its HTTP status.
\<close>

datatype response =
    Success
  | Created
  | NotAdmin
  | UserNotFound
  | AlreadyMember
  | InvitePending
  | InviteNotFound
  | MemberNotFound
  | CannotModifySelf
  | NotAuthorized
  | LastAdminProtected
  | MemberNotFoundOrInactive
  | ServerError

fun status_code :: "response \<Rightarrow> nat" where
  "status_code Success = 200"
| "status_code Created = 201"
| "status_code NotAdmin = 403"
| "status_code UserNotFound = 404"
| "status_code AlreadyMember = 400"
| "status_code InvitePending = 400"
| "status_code InviteNotFound = 404"
| "status_code MemberNotFound = 404"
| "status_code CannotModifySelf = 400"
| "status_code NotAuthorized = 403"
| "status_code LastAdminProtected = 400"
| "status_code MemberNotFoundOrInactive = 404"
| "status_code ServerError = 500"

text \<open>
  A handler returns its response, the table \<^verbatim>\<open>family_members\<close> as it leaves it, and the
  users for whom it calls \<^verbatim>\<open>NotificationService.createNotification\<close> (which never throws
  and does not touch \<^verbatim>\<open>family_members\<close>).
\<close>

record family_result =
  response :: response
  members :: "family_member list"
  notified :: "uuid list"

definition answer :: "response \<Rightarrow> family_member list \<Rightarrow> uuid list \<Rightarrow> family_result" where
  "answer r fms ns = \<lparr>response = r, members = fms, notified = ns\<rparr>"

subsection \<open>\<^verbatim>\<open>POST /api/family/invite\<close>\<close>

record invite_body =
  inv_parent_id :: uuid
  inv_email :: string
  inv_role :: role
  inv_permissions :: "permissions option"

text \<open>
  An insert into \<^verbatim>\<open>family_members\<close>. The schema declares \<^verbatim>\<open>id\<close> the primary key and
  \<^verbatim>\<open>UNIQUE(parent_id, user_id)\<close>; the store reports an error for a row that breaks either.
\<close>

definition insert_family_member ::
  "bool \<Rightarrow> family_member \<Rightarrow> family_member list \<Rightarrow> family_member list option" where
  "insert_family_member insert_ok row fms =
     (if insert_ok
         \<and> filter (\<lambda>r. fm_id r = fm_id row) fms = []
         \<and> filter (\<lambda>r. fm_parent_id r = fm_parent_id row \<and> fm_user_id r = fm_user_id row) fms = []
      then Some (fms @ [row]) else None)"

definition default_permissions :: "role \<Rightarrow> permissions" where
  "default_permissions r =
     \<lparr>can_view = True, can_edit = (r = Editor \<or> r = Admin), can_delete = (r = Admin)\<rparr>"

text \<open>
  \<open>body\<close> is the request body as \<^verbatim>\<open>inviteSchema\<close> has parsed it, and \<open>new_id\<close> is the
  identifier the store generates for the inserted row.
\<close>

definition invite_member ::
  "bool \<Rightarrow> uuid \<Rightarrow> uuid \<Rightarrow> invite_body \<Rightarrow> profile list \<Rightarrow> family_member list
     \<Rightarrow> family_result" where
  "invite_member insert_ok new_id userId body profiles fms =
     (if \<not> holds_admin_role userId (inv_parent_id body) fms then answer NotAdmin fms []
      else (case single (filter (\<lambda>p. pr_email p = inv_email body) profiles) of
        None \<Rightarrow> answer UserNotFound fms []
      | Some invitedUser \<Rightarrow>
          (case map_option fm_status (membership_of (pr_id invitedUser) (inv_parent_id body) fms) of
             Some Active \<Rightarrow> answer AlreadyMember fms []
           | Some Pending \<Rightarrow> answer InvitePending fms []
           | _ \<Rightarrow>
               let permissions =
                     (case inv_permissions body of
                        Some p \<Rightarrow> p
                      | None \<Rightarrow> default_permissions (inv_role body));
                   row = \<lparr>fm_id = new_id, fm_parent_id = inv_parent_id body,
                          fm_user_id = pr_id invitedUser, fm_role = inv_role body,
                          fm_permissions = permissions, fm_status = Pending,
                          fm_invited_by = Some userId, fm_accepted_at = None\<rparr>
               in (case insert_family_member insert_ok row fms of
                     None \<Rightarrow> answer ServerError fms []
                   | Some fms' \<Rightarrow> answer Created fms' [pr_id invitedUser]))))"

subsection \<open>\<^verbatim>\<open>POST /api/family/invites/:inviteId/accept\<close> and \<^verbatim>\<open>.../decline\<close>\<close>

definition pending_invite :: "uuid \<Rightarrow> uuid \<Rightarrow> family_member list \<Rightarrow> family_member option" where
  "pending_invite userId inviteId fms =
     single (filter (\<lambda>r. fm_id r = inviteId \<and> fm_user_id r = userId \<and> fm_status r = Pending) fms)"

text \<open>The inviter is notified; the handlers pass \<^verbatim>\<open>invite.invited_by || ''\<close>.\<close>

definition inviter_of :: "family_member \<Rightarrow> uuid" where
  "inviter_of invite = (case fm_invited_by invite of None \<Rightarrow> [] | Some u \<Rightarrow> u)"

definition accept_invite ::
  "bool \<Rightarrow> int \<Rightarrow> uuid \<Rightarrow> uuid \<Rightarrow> family_member list \<Rightarrow> family_result" where
  "accept_invite update_ok now userId inviteId fms =
     (case pending_invite userId inviteId fms of
        None \<Rightarrow> answer InviteNotFound fms []
      | Some invite \<Rightarrow>
          if \<not> update_ok then answer ServerError fms []
          else answer Success
                 (map (\<lambda>r. if fm_id r = inviteId
                            then r\<lparr>fm_status := Active, fm_accepted_at := Some now\<rparr> else r) fms)
                 [inviter_of invite])"

definition decline_invite ::
  "bool \<Rightarrow> uuid \<Rightarrow> uuid \<Rightarrow> family_member list \<Rightarrow> family_result" where
  "decline_invite delete_ok userId inviteId fms =
     (case pending_invite userId inviteId fms of
        None \<Rightarrow> answer InviteNotFound fms []
      | Some invite \<Rightarrow>
          if \<not> delete_ok then answer ServerError fms []
          else answer Success (filter (\<lambda>r. fm_id r \<noteq> inviteId) fms) [inviter_of invite])"

subsection \<open>\<^verbatim>\<open>PATCH /api/family/members/:memberId/permissions\<close>\<close>

record update_body =
  upd_role :: "role option"
  upd_permissions :: "permissions option"

definition apply_updates :: "update_body \<Rightarrow> family_member \<Rightarrow> family_member" where
  "apply_updates body r =
     r\<lparr>fm_role := (case upd_role body of None \<Rightarrow> fm_role r | Some x \<Rightarrow> x),
       fm_permissions := (case upd_permissions body of None \<Rightarrow> fm_permissions r | Some p \<Rightarrow> p)\<rparr>"

definition update_permissions ::
  "bool \<Rightarrow> uuid \<Rightarrow> uuid \<Rightarrow> update_body \<Rightarrow> family_member list \<Rightarrow> family_result" where
  "update_permissions update_ok userId memberId body fms =
     (case member_by_id memberId fms of
        None \<Rightarrow> answer MemberNotFound fms []
      | Some member \<Rightarrow>
          if \<not> holds_admin_role userId (fm_parent_id member) fms then answer NotAdmin fms []
          else if fm_user_id member = userId then answer CannotModifySelf fms []
          else if \<not> update_ok then answer ServerError fms []
          else answer Success
                 (map (\<lambda>r. if fm_id r = memberId then apply_updates body r else r) fms)
                 [fm_user_id member])"

subsection \<open>\<^verbatim>\<open>DELETE /api/family/members/:memberId\<close>\<close>

definition remove_member ::
  "bool \<Rightarrow> uuid \<Rightarrow> uuid \<Rightarrow> family_member list \<Rightarrow> family_result" where
  "remove_member delete_ok userId memberId fms =
     (case member_by_id memberId fms of
        None \<Rightarrow> answer MemberNotFound fms []
      | Some member \<Rightarrow>
          let isSelfRemoval = (fm_user_id member = userId);
              isAdmin = holds_admin_role userId (fm_parent_id member) fms
          in if \<not> isSelfRemoval \<and> \<not> isAdmin then answer NotAuthorized fms []
             else if fm_role member = Admin
                     \<and> length (active_admins (fm_parent_id member) fms) = 1
               then answer LastAdminProtected fms []
             else if \<not> delete_ok then answer ServerError fms []
             else answer Success (filter (\<lambda>r. fm_id r \<noteq> memberId) fms)
                    (if isSelfRemoval then [] else [fm_user_id member]))"

subsection \<open>\<^verbatim>\<open>POST /api/family/members/:memberId/transfer-admin\<close>\<close>

definition promote :: "family_member \<Rightarrow> family_member" where
  "promote r =
     r\<lparr>fm_role := Admin,
       fm_permissions := \<lparr>can_view = True, can_edit = True, can_delete = True\<rparr>\<rparr>"

definition demote :: "family_member \<Rightarrow> family_member" where
  "demote r =
     r\<lparr>fm_role := Editor,
       fm_permissions := \<lparr>can_view = True, can_edit = True, can_delete = False\<rparr>\<rparr>"

text \<open>
  Two separate writes, the promotion first. When the second one fails the first one stays.
\<close>

definition transfer_admin ::
  "bool \<Rightarrow> bool \<Rightarrow> uuid \<Rightarrow> uuid \<Rightarrow> family_member list \<Rightarrow> family_result" where
  "transfer_admin upgrade_ok downgrade_ok userId memberId fms =
     (case member_by_id memberId fms of
        None \<Rightarrow> answer MemberNotFoundOrInactive fms []
      | Some targetMember \<Rightarrow>
          if fm_status targetMember \<noteq> Active then answer MemberNotFoundOrInactive fms []
          else (case membership_of userId (fm_parent_id targetMember) fms of
            None \<Rightarrow> answer NotAdmin fms []
          | Some currentAdmin \<Rightarrow>
              if fm_role currentAdmin \<noteq> Admin then answer NotAdmin fms []
              else if \<not> upgrade_ok then answer ServerError fms []
              else
                let fms1 = map (\<lambda>r. if fm_id r = memberId then promote r else r) fms
                in if \<not> downgrade_ok then answer ServerError fms1 []
                   else answer Success
                          (map (\<lambda>r. if fm_id r = fm_id currentAdmin then demote r else r) fms1)
                          [fm_user_id targetMember]))"

section \<open>Permission checks\<close>

subsection \<open>The middleware \<^verbatim>\<open>checkFamilyPermission\<close>\<close>

datatype permission = View | Edit | Delete

datatype gate = Next | Unauthorized | BadRequest | Forbidden

text \<open>
  \<open>user\<close> is \<^verbatim>\<open>req.user\<close> and \<open>parentId\<close> is \<^verbatim>\<open>req.params.parentId\<close>; either may be
  missing. \<open>Next\<close> hands the request on to the route.
\<close>

definition checkFamilyPermission ::
  "permission \<Rightarrow> uuid option \<Rightarrow> uuid option \<Rightarrow> family_member list \<Rightarrow> gate" where
  "checkFamilyPermission permission user parentId fms =
     (case user of
        None \<Rightarrow> Unauthorized
      | Some userId \<Rightarrow>
          (case parentId of
             None \<Rightarrow> BadRequest
           | Some pid \<Rightarrow>
               (case single (filter (\<lambda>r. fm_parent_id r = pid \<and> fm_user_id r = userId
                                         \<and> fm_status r = Active) fms) of
                  None \<Rightarrow> Forbidden
                | Some familyMember \<Rightarrow>
                    if fm_role familyMember = Admin then Next
                    else
                      let hasPermission =
                            (case permission of
                               View \<Rightarrow> can_view (fm_permissions familyMember)
                             | Edit \<Rightarrow> can_edit (fm_permissions familyMember)
                             | Delete \<Rightarrow> can_delete (fm_permissions familyMember))
                      in if \<not> hasPermission then Forbidden else Next)))"

subsection \<open>\<^verbatim>\<open>PATCH /api/appointments/:id/status\<close>\<close>

datatype appointment_status = Scheduled | Completed | Cancelled | Missed

record appointment =
  apt_id :: uuid
  apt_parent_id :: uuid
  apt_scheduled_at :: int
  apt_status :: appointment_status
  apt_outcome :: "string option"

datatype status_response =
    StatusUpdated
  | AppointmentNotFound
  | NoPermission
  | StatusUpdateFailed

record status_result =
  st_response :: status_response
  st_appointments :: "appointment list"
  st_notified :: "uuid list"

text \<open>
  The route checks the permission itself: it reads only the \<^verbatim>\<open>permissions\<close> column of the
  requester's membership and tests \<^verbatim>\<open>can_edit\<close>. The body's status is one of the four
  values of the enumeration; an outcome that the body does not have is not written. On
  \<^verbatim>\<open>completed\<close> and \<^verbatim>\<open>cancelled\<close> the other active members are notified.
\<close>

definition update_appointment_status ::
  "bool \<Rightarrow> uuid \<Rightarrow> uuid \<Rightarrow> appointment_status \<Rightarrow> string option \<Rightarrow> family_member list
     \<Rightarrow> appointment list \<Rightarrow> status_result" where
  "update_appointment_status update_ok userId appointmentId status outcome fms appts =
     (case single (filter (\<lambda>a. apt_id a = appointmentId) appts) of
        None \<Rightarrow> \<lparr>st_response = AppointmentNotFound, st_appointments = appts, st_notified = []\<rparr>
      | Some appointment \<Rightarrow>
          (case membership_of userId (apt_parent_id appointment) fms of
             None \<Rightarrow> \<lparr>st_response = NoPermission, st_appointments = appts, st_notified = []\<rparr>
           | Some familyMember \<Rightarrow>
               if \<not> can_edit (fm_permissions familyMember)
               then \<lparr>st_response = NoPermission, st_appointments = appts, st_notified = []\<rparr>
               else if \<not> update_ok
               then \<lparr>st_response = StatusUpdateFailed, st_appointments = appts, st_notified = []\<rparr>
               else
                 \<lparr>st_response = StatusUpdated,
                  st_appointments =
                    map (\<lambda>a. if apt_id a = appointmentId
                              then a\<lparr>apt_status := status,
                                     apt_outcome := (case outcome of
                                                       None \<Rightarrow> apt_outcome a
                                                     | Some text \<Rightarrow> Some text)\<rparr>
                              else a) appts,
                  st_notified =
                    (if status = Completed \<or> status = Cancelled
                     then map fm_user_id
                            (filter (\<lambda>r. fm_parent_id r = apt_parent_id appointment
                                          \<and> fm_user_id r \<noteq> userId \<and> fm_status r = Active) fms)
                     else [])\<rparr>))"

section \<open>Scheduled jobs\<close>

subsection \<open>The appointment status job (\<^verbatim>\<open>30 0 * * *\<close>)\<close>

text \<open>
  One \<^verbatim>\<open>UPDATE\<close> with the filters \<^verbatim>\<open>scheduled_at < now\<close> and \<^verbatim>\<open>status = 'scheduled'\<close>.
  Instants are numbers on the time line. An error of the store is thrown, caught by the
  job and logged; the table is then as before.
\<close>

definition appointment_status_job :: "bool \<Rightarrow> int \<Rightarrow> appointment list \<Rightarrow> appointment list" where
  "appointment_status_job update_ok now appts =
     (if \<not> update_ok then appts
      else map (\<lambda>a. if apt_scheduled_at a < now \<and> apt_status a = Scheduled
                     then a\<lparr>apt_status := Missed\<rparr> else a) appts)"

section \<open>Notification service\<close>

datatype notification_type = Medication | Appointment | Document | Family | System

fun type_name :: "notification_type \<Rightarrow> string" where
  "type_name Medication = ''medication''"
| "type_name Appointment = ''appointment''"
| "type_name Document = ''document''"
| "type_name Family = ''family''"
| "type_name System = ''system''"

text \<open>The free-form \<^verbatim>\<open>data\<close> object of a notification, as its list of entries.\<close>

type_synonym data = "(string \<times> string) list"

record notification =
  ntf_user_id :: uuid
  ntf_type :: notification_type
  ntf_title :: string
  ntf_message :: string
  ntf_data :: "data option"
  ntf_is_read :: bool

record push_subscription =
  sub_id :: uuid
  sub_user_id :: uuid
  sub_endpoint :: string
  sub_is_active :: bool

record medication =
  med_id :: uuid
  med_parent_id :: uuid
  med_parent_name :: string
  med_name :: string
  med_dosage :: string
  med_times :: "string list option"
  med_is_active :: bool

text \<open>
  The tables the service works on, and the lines it writes with \<^verbatim>\<open>console.error\<close>.
  A medication row carries the name of its care-recipient (the query joins \<^verbatim>\<open>parents\<close>).
\<close>

record store =
  medications :: "medication list"
  family_members :: "family_member list"
  notifications :: "notification list"
  push_subscriptions :: "push_subscription list"
  console_error :: "string list"

record payload =
  pl_title :: string
  pl_body :: string
  pl_icon :: string
  pl_badge :: string
  pl_data :: data
  pl_actions :: "(string \<times> string) list"

text \<open>
  What the service cannot decide itself: whether the store accepts the insert of a
  notification row, and how the push channel answers a delivery. A failed delivery carries
  the \<^verbatim>\<open>statusCode\<close> of the error when it has one.

  The third field is JavaScript's \<^verbatim>\<open>Number\<close> on the strings that are not short strings of
  decimal digits (blanks, signs, hexadecimal, fractions, exponents and so on): the integer
  the conversion yields, and \<open>None\<close> when it yields no integer (\<^verbatim>\<open>NaN\<close>, an infinity, a
  fraction). The model fixes nothing about it, so what is proved for every environment
  holds for the real conversion.
\<close>

datatype push_outcome = Sent | SendFailed "nat option"

record environment =
  env_insert_ok :: "notification \<Rightarrow> bool"
  env_push :: "push_subscription \<Rightarrow> payload \<Rightarrow> push_outcome"
  env_Number :: "string \<Rightarrow> int option"

subsection \<open>\<^verbatim>\<open>sendPushNotification\<close>\<close>

definition deactivate :: "uuid \<Rightarrow> push_subscription list \<Rightarrow> push_subscription list" where
  "deactivate subId subs = map (\<lambda>s. if sub_id s = subId then s\<lparr>sub_is_active := False\<rparr> else s) subs"

text \<open>
  The callback run for each subscription. The callbacks run concurrently; each one changes at
  most the row of its own subscription, so the table they leave does not depend on their
  order, and the model runs them in the order of the query result.
\<close>

definition push_one :: "environment \<Rightarrow> payload \<Rightarrow> store \<Rightarrow> push_subscription \<Rightarrow> store" where
  "push_one env pl db sub =
     (case env_push env sub pl of
        Sent \<Rightarrow> db
      | SendFailed statusCode \<Rightarrow>
          let db' = db\<lparr>console_error := console_error db @ [''Error sending push:'']\<rparr>
          in if statusCode = Some 410
             then db'\<lparr>push_subscriptions := deactivate (sub_id sub) (push_subscriptions db')\<rparr>
             else db')"

definition sendPushNotification :: "environment \<Rightarrow> uuid \<Rightarrow> payload \<Rightarrow> store \<Rightarrow> store" where
  "sendPushNotification env userId pl db =
     (let subscriptions =
            filter (\<lambda>s. sub_user_id s = userId \<and> sub_is_active s) (push_subscriptions db)
      in if subscriptions = [] then db else foldl (push_one env pl) db subscriptions)"

subsection \<open>\<^verbatim>\<open>createNotification\<close>\<close>

text \<open>\<^verbatim>\<open>{ type, ...data }\<close>: the entry \<^verbatim>\<open>type\<close> first, overridden by one in \<open>data\<close>.\<close>

definition push_data :: "notification_type \<Rightarrow> data option \<Rightarrow> data" where
  "push_data t d =
     (let entries = (case d of None \<Rightarrow> [] | Some es \<Rightarrow> es)
      in (''type'', (case map_of entries ''type'' of None \<Rightarrow> type_name t | Some v \<Rightarrow> v))
           # filter (\<lambda>e. fst e \<noteq> ''type'') entries)"

text \<open>The row that is inserted, and the payload that is pushed.\<close>

definition notification_row ::
  "uuid \<Rightarrow> notification_type \<Rightarrow> string \<Rightarrow> string \<Rightarrow> data option \<Rightarrow> notification" where
  "notification_row userId t title message d =
     \<lparr>ntf_user_id = userId, ntf_type = t, ntf_title = title, ntf_message = message,
      ntf_data = d, ntf_is_read = False\<rparr>"

definition push_payload :: "notification_type \<Rightarrow> string \<Rightarrow> string \<Rightarrow> data option \<Rightarrow> payload" where
  "push_payload t title message d =
     \<lparr>pl_title = title, pl_body = message, pl_icon = ''/icon-192x192.png'',
      pl_badge = ''/badge-72x72.png'', pl_data = push_data t d,
      pl_actions = [(''view'', ''Ver''), (''dismiss'', ''Dispensar'')]\<rparr>"

datatype thrown = StoreError

text \<open>The body of the \<^verbatim>\<open>try\<close> block: \<open>Inl\<close> is the error it throws.\<close>

definition createNotification_try ::
  "environment \<Rightarrow> uuid \<Rightarrow> notification_type \<Rightarrow> string \<Rightarrow> string \<Rightarrow> data option \<Rightarrow> store
     \<Rightarrow> thrown + store" where
  "createNotification_try env userId t title message d db =
     (let row = notification_row userId t title message d
      in if \<not> env_insert_ok env row then Inl StoreError
         else Inr (sendPushNotification env userId (push_payload t title message d)
                     (db\<lparr>notifications := notifications db @ [row]\<rparr>)))"

text \<open>The whole method: the \<^verbatim>\<open>catch\<close> clause logs whatever the block threw and returns.\<close>

definition createNotification ::
  "environment \<Rightarrow> uuid \<Rightarrow> notification_type \<Rightarrow> string \<Rightarrow> string \<Rightarrow> data option \<Rightarrow> store
     \<Rightarrow> store" where
  "createNotification env userId t title message d db =
     (case createNotification_try env userId t title message d db of
        Inl error \<Rightarrow> db\<lparr>console_error := console_error db @ [''Error creating notification:'']\<rparr>
      | Inr db' \<Rightarrow> db')"

subsection \<open>\<^verbatim>\<open>sendMedicationReminders\<close>\<close>

text \<open>\<^verbatim>\<open>time.split(':')\<close>.\<close>

fun split_on :: "char \<Rightarrow> string \<Rightarrow> string list" where
  "split_on c [] = [[]]"
| "split_on c (x # xs) =
     (if x = c then [] # split_on c xs
      else (case split_on c xs of
              [] \<Rightarrow> [[x]]
            | w # ws \<Rightarrow> (x # w) # ws))"

text \<open>
  \<^verbatim>\<open>Number\<close> on the fields of a time. A string of at most 15 decimal digits has its
  decimal value (the empty string is 0); these are the fields of the times \<^verbatim>\<open>HH:MM\<close> that
  the medication routes accept. The column is free text, and on any other string the
  result is the environment's. \<open>None\<close> stands for every result that is no integer: the
  two comparisons of the reminder test are false of \<^verbatim>\<open>NaN\<close> and of an infinity, and of a
  fraction too (the doubles from 4 on are multiples of \<^verbatim>\<open>2^-50\<close>, so the difference of a
  fraction and the current minute is computed exactly and is not 5).
\<close>

definition digit_of :: "char \<Rightarrow> int option" where
  "digit_of c =
     map_of [(CHR ''0'', 0), (CHR ''1'', 1), (CHR ''2'', 2), (CHR ''3'', 3), (CHR ''4'', 4),
             (CHR ''5'', 5), (CHR ''6'', 6), (CHR ''7'', 7), (CHR ''8'', 8), (CHR ''9'', 9)] c"

fun decimal :: "int \<Rightarrow> string \<Rightarrow> int option" where
  "decimal acc [] = Some acc"
| "decimal acc (c # cs) =
     (case digit_of c of
        None \<Rightarrow> None
      | Some d \<Rightarrow> decimal (10 * acc + d) cs)"

definition Number :: "environment \<Rightarrow> string \<Rightarrow> int option" where
  "Number env s =
     (if length s \<le> 15 \<and> list_all (\<lambda>c. digit_of c \<noteq> None) s then decimal 0 s
      else env_Number env s)"

text \<open>
  The test \<^verbatim>\<open>hour === currentHour && minute - currentMinute === 5\<close> on
  \<^verbatim>\<open>[hour, minute] = time.split(':').map(Number)\<close>. A missing \<open>minute\<close> is
  \<^verbatim>\<open>undefined\<close>, and a comparison with \<^verbatim>\<open>NaN\<close> is false.
\<close>

definition due_in_five :: "environment \<Rightarrow> int \<Rightarrow> int \<Rightarrow> string \<Rightarrow> bool" where
  "due_in_five env currentHour currentMinute time =
     (case map (Number env) (split_on CHR '':'' time) of
        Some hour # Some minute # rest \<Rightarrow> hour = currentHour \<and> minute - currentMinute = 5
      | _ \<Rightarrow> False)"

definition reminder_title :: string where
  "reminder_title = [CHR 0xF0, CHR 0x9F, CHR 0x92, CHR 0x8A] @ '' Hora do medicamento''"

definition reminder_message :: "medication \<Rightarrow> string" where
  "reminder_message med =
     med_parent_name med @ '' precisa tomar '' @ med_name med @ '' ('' @ med_dosage med
       @ '') em 5 minutos''"

text \<open>The three nested loops, innermost first.\<close>

fun remind_members ::
  "environment \<Rightarrow> medication \<Rightarrow> string \<Rightarrow> family_member list \<Rightarrow> store \<Rightarrow> store" where
  "remind_members env med time [] db = db"
| "remind_members env med time (member # familyMembers) db =
     remind_members env med time familyMembers
       (createNotification env (fm_user_id member) Medication reminder_title
          (reminder_message med)
          (Some [(''medication_id'', med_id med), (''parent_id'', med_parent_id med),
                 (''scheduled_time'', time)])
          db)"

fun remind_times ::
  "environment \<Rightarrow> int \<Rightarrow> int \<Rightarrow> medication \<Rightarrow> string list \<Rightarrow> store \<Rightarrow> store" where
  "remind_times env currentHour currentMinute med [] db = db"
| "remind_times env currentHour currentMinute med (time # rest) db =
     remind_times env currentHour currentMinute med rest
       (if due_in_five env currentHour currentMinute time
        then remind_members env med time
               (filter (\<lambda>r. fm_parent_id r = med_parent_id med) (family_members db)) db
        else db)"

fun remind_medications ::
  "environment \<Rightarrow> int \<Rightarrow> int \<Rightarrow> medication list \<Rightarrow> store \<Rightarrow> store" where
  "remind_medications env currentHour currentMinute [] db = db"
| "remind_medications env currentHour currentMinute (med # meds) db =
     remind_medications env currentHour currentMinute meds
       (remind_times env currentHour currentMinute med
          (case med_times med of None \<Rightarrow> [] | Some ts \<Rightarrow> ts) db)"

text \<open>\<open>currentHour\<close> and \<open>currentMinute\<close> are the local hour and minute of \<^verbatim>\<open>new Date()\<close>.\<close>

definition sendMedicationReminders :: "environment \<Rightarrow> int \<Rightarrow> int \<Rightarrow> store \<Rightarrow> store" where
  "sendMedicationReminders env currentHour currentMinute db =
     remind_medications env currentHour currentMinute
       (filter med_is_active (medications db)) db"

section \<open>Notions used in the statements\<close>

text \<open>The memberships of a care-recipient that have role \<^verbatim>\<open>admin\<close>, whatever their status.\<close>

definition admins_of :: "uuid \<Rightarrow> family_member list \<Rightarrow> family_member list" where
  "admins_of parentId fms = filter (\<lambda>r. fm_parent_id r = parentId \<and> fm_role r = Admin) fms"

text \<open>
  What a transfer from the membership \<open>actorId\<close> to another membership \<open>memberId\<close> does to
  a row: the first is demoted, the second promoted, any other row is kept.
\<close>

definition transferred :: "uuid \<Rightarrow> uuid \<Rightarrow> family_member \<Rightarrow> family_member" where
  "transferred actorId memberId r =
     (if fm_id r = actorId then demote r else if fm_id r = memberId then promote r else r)"

section \<open>Example states\<close>

text \<open>
  One care-recipient \<^verbatim>\<open>p1\<close>. Ana created it and is its admin; Bruno is a second admin;
  Carla is a viewer; Dora has been invited as admin and has not answered.
\<close>

definition all_flags :: permissions where
  "all_flags = \<lparr>can_view = True, can_edit = True, can_delete = True\<rparr>"

definition view_only :: permissions where
  "view_only = \<lparr>can_view = True, can_edit = False, can_delete = False\<rparr>"

definition ana :: family_member where
  "ana = \<lparr>fm_id = ''m1'', fm_parent_id = ''p1'', fm_user_id = ''u1'', fm_role = Admin,
           fm_permissions = all_flags, fm_status = Active, fm_invited_by = Some ''u1'',
           fm_accepted_at = Some 0\<rparr>"

definition bruno :: family_member where
  "bruno = \<lparr>fm_id = ''m2'', fm_parent_id = ''p1'', fm_user_id = ''u2'', fm_role = Admin,
             fm_permissions = all_flags, fm_status = Active, fm_invited_by = Some ''u1'',
             fm_accepted_at = Some 1\<rparr>"

definition carla :: family_member where
  "carla = \<lparr>fm_id = ''m3'', fm_parent_id = ''p1'', fm_user_id = ''u3'', fm_role = Viewer,
             fm_permissions = view_only, fm_status = Active, fm_invited_by = Some ''u1'',
             fm_accepted_at = Some 2\<rparr>"

definition dora :: family_member where
  "dora = \<lparr>fm_id = ''m4'', fm_parent_id = ''p1'', fm_user_id = ''u4'', fm_role = Admin,
            fm_permissions = all_flags, fm_status = Pending, fm_invited_by = Some ''u1'',
            fm_accepted_at = None\<rparr>"

text \<open>The registered profiles. Edu has an account and no membership.\<close>

definition registered :: "profile list" where
  "registered =
     [\<lparr>pr_id = ''u1'', pr_email = ''ana@example.com''\<rparr>,
      \<lparr>pr_id = ''u2'', pr_email = ''bruno@example.com''\<rparr>,
      \<lparr>pr_id = ''u3'', pr_email = ''carla@example.com''\<rparr>,
      \<lparr>pr_id = ''u4'', pr_email = ''dora@example.com''\<rparr>,
      \<lparr>pr_id = ''u5'', pr_email = ''edu@example.com''\<rparr>,
      \<lparr>pr_id = ''u6'', pr_email = ''fabio@example.com''\<rparr>,
      \<lparr>pr_id = ''u7'', pr_email = ''gil@example.com''\<rparr>]"

text \<open>
  A second care-recipient \<^verbatim>\<open>p2\<close>, created by Gil. Gil has invited Fabio with role
  \<^verbatim>\<open>admin\<close> and an explicit permissions object that grants viewing only, and Fabio has
  accepted. Three appointments of \<^verbatim>\<open>p2\<close>.
\<close>

definition gil :: family_member where
  "gil = \<lparr>fm_id = ''m7'', fm_parent_id = ''p2'', fm_user_id = ''u7'', fm_role = Admin,
           fm_permissions = all_flags, fm_status = Active, fm_invited_by = Some ''u7'',
           fm_accepted_at = Some 0\<rparr>"

definition fabio :: family_member where
  "fabio = \<lparr>fm_id = ''m6'', fm_parent_id = ''p2'', fm_user_id = ''u6'', fm_role = Admin,
             fm_permissions = view_only, fm_status = Active, fm_invited_by = Some ''u7'',
             fm_accepted_at = Some 3\<rparr>"

definition consulta :: appointment where
  "consulta = \<lparr>apt_id = ''a1'', apt_parent_id = ''p2'', apt_scheduled_at = 1000,
                apt_status = Scheduled, apt_outcome = None\<rparr>"

definition realizada :: appointment where
  "realizada = \<lparr>apt_id = ''a2'', apt_parent_id = ''p2'', apt_scheduled_at = 1000,
                 apt_status = Completed, apt_outcome = Some ''ok''\<rparr>"

definition futura :: appointment where
  "futura = \<lparr>apt_id = ''a3'', apt_parent_id = ''p2'', apt_scheduled_at = 3000,
              apt_status = Scheduled, apt_outcome = None\<rparr>"

text \<open>
  Push subscriptions: two devices of Ana and one of Bruno, all active. The channel
  \<open>canal\<close> reports the endpoint of Ana's phone as gone (410) and delivers to every other
  endpoint; the store of \<open>canal\<close> accepts every insert, the store of \<open>fora\<close> rejects them.
  Neither is asked for a number outside the digit strings.
\<close>

definition celular :: push_subscription where
  "celular = \<lparr>sub_id = ''s1'', sub_user_id = ''u1'', sub_endpoint = ''https://push.example/1'',
               sub_is_active = True\<rparr>"

definition tablet :: push_subscription where
  "tablet = \<lparr>sub_id = ''s2'', sub_user_id = ''u1'', sub_endpoint = ''https://push.example/2'',
              sub_is_active = True\<rparr>"

definition outro :: push_subscription where
  "outro = \<lparr>sub_id = ''s3'', sub_user_id = ''u2'', sub_endpoint = ''https://push.example/3'',
             sub_is_active = True\<rparr>"

definition canal :: environment where
  "canal = \<lparr>env_insert_ok = (\<lambda>row. True),
             env_push = (\<lambda>sub pl. if sub_endpoint sub = ''https://push.example/1''
                                    then SendFailed (Some 410) else Sent),
             env_Number = (\<lambda>s. None)\<rparr>"

definition fora :: environment where
  "fora = \<lparr>env_insert_ok = (\<lambda>row. False), env_push = (\<lambda>sub pl. Sent),
            env_Number = (\<lambda>s. None)\<rparr>"

definition assinaturas :: store where
  "assinaturas = \<lparr>medications = [], family_members = [], notifications = [],
                   push_subscriptions = [celular, tablet, outro], console_error = []\<rparr>"

definition vazio :: store where
  "vazio = \<lparr>medications = [], family_members = [], notifications = [],
             push_subscriptions = [], console_error = []\<rparr>"

text \<open>
  The medication of the seed script, due at 08:00 and 20:00, for the care-recipient
  \<^verbatim>\<open>p1\<close> with the members Ana, Carla and the invited Dora.
\<close>

definition losartana :: medication where
  "losartana = \<lparr>med_id = ''med1'', med_parent_id = ''p1'', med_parent_name = ''Maria Silva'',
                 med_name = ''Losartana'', med_dosage = ''50mg'',
                 med_times = Some [''08:00'', ''20:00''], med_is_active = True\<rparr>"

definition farmacia :: store where
  "farmacia = \<lparr>medications = [losartana], family_members = [ana, carla, dora],
                notifications = [], push_subscriptions = [], console_error = []\<rparr>"

section \<open>Removing a member\<close>

lemmas family_defs =
  member_by_id_def membership_of_def active_admins_def holds_admin_role_def answer_def

lemmas example_defs =
  ana_def bruno_def carla_def dora_def all_flags_def view_only_def registered_def
  gil_def fabio_def consulta_def realizada_def futura_def celular_def tablet_def
  outro_def canal_def fora_def assinaturas_def vazio_def losartana_def farmacia_def

text \<open>
  The branches of the handler. Let the target membership of a removal exist. If its role
  is admin and the requester is the member or passes the admin test, then with exactly one
  active admin of the care-recipient the request fails with \<open>LastAdminProtected\<close> and
  the table is as before, and with two or more active admins (and a store that performs
  the delete) it succeeds and the row is gone. A requester who does not pass the admin test
  and is not the member gets \<open>NotAuthorized\<close> and the table is as before; removing their
  own non-admin membership succeeds.
\<close>

lemma remove_member_guard:
  assumes found: "member_by_id memberId fms = Some member"
  shows
    "(fm_role member = Admin
        \<and> (fm_user_id member = userId \<or> holds_admin_role userId (fm_parent_id member) fms) \<longrightarrow>
        (length (active_admins (fm_parent_id member) fms) = 1 \<longrightarrow>
           remove_member delete_ok userId memberId fms = answer LastAdminProtected fms [])
      \<and> (2 \<le> length (active_admins (fm_parent_id member) fms) \<and> delete_ok \<longrightarrow>
           response (remove_member delete_ok userId memberId fms) = Success
         \<and> members (remove_member delete_ok userId memberId fms)
             = filter (\<lambda>r. fm_id r \<noteq> memberId) fms))
   \<and> (fm_user_id member \<noteq> userId \<and> \<not> holds_admin_role userId (fm_parent_id member) fms \<longrightarrow>
        remove_member delete_ok userId memberId fms = answer NotAuthorized fms [])
   \<and> (fm_user_id member = userId \<and> fm_role member \<noteq> Admin \<and> delete_ok \<longrightarrow>
        response (remove_member delete_ok userId memberId fms) = Success
      \<and> members (remove_member delete_ok userId memberId fms)
          = filter (\<lambda>r. fm_id r \<noteq> memberId) fms)"
  using found by (auto simp: remove_member_def answer_def Let_def)

text \<open>
  The sole admin Ana cannot remove herself; with Bruno as second admin he can remove her;
  Carla cannot remove Ana, and can remove herself.
\<close>

lemma remove_member_guard_examples:
  "member_by_id ''m1'' [ana, carla] = Some ana \<and> fm_role ana = Admin
   \<and> length (active_admins ''p1'' [ana, carla]) = 1
   \<and> 2 \<le> length (active_admins ''p1'' [ana, bruno, carla])
   \<and> \<not> holds_admin_role ''u3'' ''p1'' [ana, bruno, carla]
   \<and> remove_member True ''u1'' ''m1'' [ana, carla] = answer LastAdminProtected [ana, carla] []
   \<and> response (remove_member True ''u2'' ''m1'' [ana, bruno, carla]) = Success
   \<and> members (remove_member True ''u2'' ''m1'' [ana, bruno, carla]) = [bruno, carla]
   \<and> remove_member True ''u3'' ''m1'' [ana, bruno, carla]
       = answer NotAuthorized [ana, bruno, carla] []
   \<and> response (remove_member True ''u3'' ''m3'' [ana, carla]) = Success
   \<and> members (remove_member True ''u3'' ''m3'' [ana, carla]) = [ana]"
proof -
  have f1: "member_by_id ''m1'' [ana, carla] = Some ana"
    and f2: "member_by_id ''m1'' [ana, bruno, carla] = Some ana"
    and f3: "member_by_id ''m3'' [ana, carla] = Some carla"
    by (simp_all add: member_by_id_def example_defs)
  show ?thesis
    using remove_member_guard [OF f1, of "''u1''" True]
      remove_member_guard [OF f2, of "''u2''" True]
      remove_member_guard [OF f2, of "''u3''" True]
      remove_member_guard [OF f3, of "''u3''" True]
    by (simp add: family_defs example_defs)
qed

text \<open>
  Claim C3 at a failing input. Dora has been invited as admin and has not accepted: her
  membership is pending, and the permission middleware refuses her every action on
  \<^verbatim>\<open>p1\<close>. She asks for the removal of Carla, an active viewer. The handler looks her
  membership up without regard to its status, finds the role admin, and deletes Carla's
  row: the request succeeds and Carla is notified of her removal.
\<close>

theorem pending_admin_removes_other_member:
  "fm_user_id dora = ''u4'' \<and> fm_role dora = Admin \<and> fm_status dora = Pending
   \<and> fm_id carla = ''m3'' \<and> fm_user_id carla = ''u3'' \<and> fm_status carla = Active
   \<and> remove_member True ''u4'' ''m3'' [ana, carla, dora]
       = \<lparr>response = Success, members = [ana, dora], notified = [''u3'']\<rparr>
   \<and> checkFamilyPermission View (Some ''u4'') (Some ''p1'') [ana, carla, dora] = Forbidden
   \<and> checkFamilyPermission Delete (Some ''u4'') (Some ''p1'') [ana, carla, dora] = Forbidden"
  by (simp add: remove_member_def checkFamilyPermission_def family_defs example_defs)

section \<open>Transferring the admin role\<close>

lemma single_SomeD: "single xs = Some x \<Longrightarrow> xs = [x]"
  by (cases xs rule: single.cases) auto

lemma single_filter_map:
  assumes "single (filter P xs) = Some x" and "\<And>y. Q (f y) = P y"
  shows "single (filter Q (map f xs)) = Some (f x)"
proof -
  have "filter P xs = [x]" using assms(1) by (rule single_SomeD)
  moreover have "filter Q (map f xs) = map f (filter P xs)"
    using assms(2) by (simp add: filter_map comp_def)
  ultimately show ?thesis by simp
qed

lemma member_by_id_idD: "member_by_id memberId fms = Some target \<Longrightarrow> fm_id target = memberId"
proof -
  assume "member_by_id memberId fms = Some target"
  then have "filter (\<lambda>r. fm_id r = memberId) fms = [target]"
    by (simp add: member_by_id_def single_SomeD)
  then have "target \<in> set (filter (\<lambda>r. fm_id r = memberId) fms)" by simp
  then show ?thesis by simp
qed

text \<open>A successful transfer has passed every test of the handler and made both writes.\<close>

lemma transfer_admin_SuccessD:
  assumes "response (transfer_admin upgrade_ok downgrade_ok userId memberId fms) = Success"
  obtains target actor where
    "member_by_id memberId fms = Some target" "fm_status target = Active"
    "membership_of userId (fm_parent_id target) fms = Some actor" "fm_role actor = Admin"
    "members (transfer_admin upgrade_ok downgrade_ok userId memberId fms)
       = map (\<lambda>r. if fm_id r = fm_id actor then demote r else r)
           (map (\<lambda>r. if fm_id r = memberId then promote r else r) fms)"
proof -
  from assms obtain target where t: "member_by_id memberId fms = Some target"
    by (cases "member_by_id memberId fms") (simp_all add: transfer_admin_def answer_def)
  from assms t have act: "fm_status target = Active"
    by (cases "fm_status target = Active") (simp_all add: transfer_admin_def answer_def)
  from assms t act obtain actor where a: "membership_of userId (fm_parent_id target) fms = Some actor"
    by (cases "membership_of userId (fm_parent_id target) fms")
       (simp_all add: transfer_admin_def answer_def)
  from assms t act a have adm: "fm_role actor = Admin"
    by (cases "fm_role actor = Admin") (simp_all add: transfer_admin_def answer_def)
  from assms t act a adm have ok: "upgrade_ok" "downgrade_ok"
    by (cases upgrade_ok; cases downgrade_ok; simp add: transfer_admin_def answer_def Let_def)+
  from t act a adm ok have
    "members (transfer_admin upgrade_ok downgrade_ok userId memberId fms)
       = map (\<lambda>r. if fm_id r = fm_id actor then demote r else r)
           (map (\<lambda>r. if fm_id r = memberId then promote r else r) fms)"
    by (simp add: transfer_admin_def answer_def Let_def)
  with t act a adm show ?thesis by (rule that)
qed

lemma transfer_two_maps:
  "actorId \<noteq> memberId \<Longrightarrow>
   map (\<lambda>r. if fm_id r = actorId then demote r else r)
     (map (\<lambda>r. if fm_id r = memberId then promote r else r) fms)
   = map (transferred actorId memberId) fms"
  by (auto simp: transferred_def promote_def demote_def)

lemma transferred_keeps:
  "fm_id (transferred a m r) = fm_id r"
  "fm_parent_id (transferred a m r) = fm_parent_id r"
  "fm_user_id (transferred a m r) = fm_user_id r"
  by (simp_all add: transferred_def promote_def demote_def)

text \<open>
  When the actor's membership is the only one with role admin, the promoted target is the
  only one afterwards.
\<close>

lemma admins_of_transferred:
  assumes tgt: "member_by_id memberId fms = Some target"
    and only: "admins_of (fm_parent_id target) fms = [actor]"
    and ne: "fm_id actor \<noteq> memberId"
  shows "admins_of (fm_parent_id target) (map (transferred (fm_id actor) memberId) fms)
           = [promote target]"
proof -
  let ?p = "fm_parent_id target"
  let ?f = "transferred (fm_id actor) memberId"
  have t: "filter (\<lambda>r. fm_id r = memberId) fms = [target]"
    using tgt by (simp add: member_by_id_def single_SomeD)
  have a: "filter (\<lambda>r. fm_parent_id r = ?p \<and> fm_role r = Admin) fms = [actor]"
    using only by (simp add: admins_of_def)
  have adm: "r = actor" if "r \<in> set fms" "fm_parent_id r = ?p" "fm_role r = Admin" for r
  proof -
    from that have "r \<in> set (filter (\<lambda>r. fm_parent_id r = ?p \<and> fm_role r = Admin) fms)" by simp
    then show ?thesis unfolding a by simp
  qed
  have "admins_of ?p (map ?f fms)
          = map ?f (filter (\<lambda>r. fm_parent_id (?f r) = ?p \<and> fm_role (?f r) = Admin) fms)"
    by (simp add: admins_of_def filter_map comp_def)
  also have "filter (\<lambda>r. fm_parent_id (?f r) = ?p \<and> fm_role (?f r) = Admin) fms
               = filter (\<lambda>r. fm_parent_id r = ?p \<and> fm_id r = memberId) fms"
    using adm ne by (intro filter_cong refl) (auto simp: transferred_def promote_def demote_def)
  also have "\<dots> = filter (\<lambda>r. fm_parent_id r = ?p) (filter (\<lambda>r. fm_id r = memberId) fms)"
    by (simp add: conj_commute)
  also have "\<dots> = [target]" unfolding t by simp
  finally have "admins_of ?p (map ?f fms) = [?f target]" by simp
  moreover have "fm_id target = memberId" using tgt by (rule member_by_id_idD)
  ultimately show ?thesis using ne by (simp add: transferred_def)
qed

text \<open>
  The refusals of a transfer: 404 when the target does not exist or is not active, 403 when
  the requester's membership does not have role admin; the table is as before.
\<close>

lemma transfer_admin_refusals:
  "member_by_id memberId fms = None \<Longrightarrow>
     transfer_admin upgrade_ok downgrade_ok userId memberId fms
       = answer MemberNotFoundOrInactive fms []"
  "member_by_id memberId fms = Some target \<Longrightarrow> fm_status target \<noteq> Active \<Longrightarrow>
     transfer_admin upgrade_ok downgrade_ok userId memberId fms
       = answer MemberNotFoundOrInactive fms []"
  "member_by_id memberId fms = Some target \<Longrightarrow> fm_status target = Active \<Longrightarrow>
     \<not> holds_admin_role userId (fm_parent_id target) fms \<Longrightarrow>
     transfer_admin upgrade_ok downgrade_ok userId memberId fms = answer NotAdmin fms []"
  "status_code MemberNotFoundOrInactive = 404" "status_code NotAdmin = 403"
proof -
  show "member_by_id memberId fms = None \<Longrightarrow>
     transfer_admin upgrade_ok downgrade_ok userId memberId fms
       = answer MemberNotFoundOrInactive fms []"
    by (simp add: transfer_admin_def)
  show "member_by_id memberId fms = Some target \<Longrightarrow> fm_status target \<noteq> Active \<Longrightarrow>
     transfer_admin upgrade_ok downgrade_ok userId memberId fms
       = answer MemberNotFoundOrInactive fms []"
    by (simp add: transfer_admin_def)
  show "member_by_id memberId fms = Some target \<Longrightarrow> fm_status target = Active \<Longrightarrow>
     \<not> holds_admin_role userId (fm_parent_id target) fms \<Longrightarrow>
     transfer_admin upgrade_ok downgrade_ok userId memberId fms = answer NotAdmin fms []"
    by (cases "membership_of userId (fm_parent_id target) fms")
       (simp_all add: transfer_admin_def holds_admin_role_def)
  show "status_code MemberNotFoundOrInactive = 404" "status_code NotAdmin = 403"
    by simp_all
qed

text \<open>
  Claim C4, as amended. A transfer succeeds only if the target membership exists and is
  active and the requester's membership for the same care-recipient has role admin. When
  it succeeds and the target is not the requester's own membership, the target has role
  admin with all three flags true, the requester's membership has role editor with view and
  edit true and delete false, and every other row is as before; so the target is the only
  admin afterwards when the requester was the only admin before.
\<close>

theorem transfer_admin_success:
  assumes ok: "response (transfer_admin upgrade_ok downgrade_ok userId memberId fms) = Success"
  shows "\<exists>target actor.
      member_by_id memberId fms = Some target \<and> fm_status target = Active
    \<and> membership_of userId (fm_parent_id target) fms = Some actor \<and> fm_role actor = Admin
    \<and> (fm_id actor \<noteq> memberId \<longrightarrow>
         members (transfer_admin upgrade_ok downgrade_ok userId memberId fms)
           = map (transferred (fm_id actor) memberId) fms
       \<and> member_by_id memberId (members (transfer_admin upgrade_ok downgrade_ok userId memberId fms))
           = Some (target\<lparr>fm_role := Admin,
                     fm_permissions := \<lparr>can_view = True, can_edit = True, can_delete = True\<rparr>\<rparr>)
       \<and> membership_of userId (fm_parent_id target)
             (members (transfer_admin upgrade_ok downgrade_ok userId memberId fms))
           = Some (actor\<lparr>fm_role := Editor,
                     fm_permissions := \<lparr>can_view = True, can_edit = True, can_delete = False\<rparr>\<rparr>)
       \<and> (admins_of (fm_parent_id target) fms = [actor] \<longrightarrow>
            admins_of (fm_parent_id target)
              (members (transfer_admin upgrade_ok downgrade_ok userId memberId fms))
              = [target\<lparr>fm_role := Admin,
                   fm_permissions := \<lparr>can_view = True, can_edit = True, can_delete = True\<rparr>\<rparr>]))"
proof -
  from ok obtain target actor where
    t: "member_by_id memberId fms = Some target" and act: "fm_status target = Active"
    and a: "membership_of userId (fm_parent_id target) fms = Some actor"
    and adm: "fm_role actor = Admin"
    and m: "members (transfer_admin upgrade_ok downgrade_ok userId memberId fms)
       = map (\<lambda>r. if fm_id r = fm_id actor then demote r else r)
           (map (\<lambda>r. if fm_id r = memberId then promote r else r) fms)"
    by (rule transfer_admin_SuccessD)
  let ?fms' = "members (transfer_admin upgrade_ok downgrade_ok userId memberId fms)"
  have "fm_id actor \<noteq> memberId \<longrightarrow>
         ?fms' = map (transferred (fm_id actor) memberId) fms
       \<and> member_by_id memberId ?fms' = Some (promote target)
       \<and> membership_of userId (fm_parent_id target) ?fms' = Some (demote actor)
       \<and> (admins_of (fm_parent_id target) fms = [actor] \<longrightarrow>
            admins_of (fm_parent_id target) ?fms' = [promote target])"
  proof
    assume ne: "fm_id actor \<noteq> memberId"
    have m': "?fms' = map (transferred (fm_id actor) memberId) fms"
      unfolding m using ne by (rule transfer_two_maps)
    have tid: "fm_id target = memberId" using t by (rule member_by_id_idD)
    have "member_by_id memberId (map (transferred (fm_id actor) memberId) fms)
            = Some (transferred (fm_id actor) memberId target)"
      unfolding member_by_id_def
      by (rule single_filter_map [OF t [unfolded member_by_id_def]]) (simp add: transferred_keeps)
    then have p1: "member_by_id memberId ?fms' = Some (promote target)"
      using m' tid ne by (simp add: transferred_def)
    have "membership_of userId (fm_parent_id target) (map (transferred (fm_id actor) memberId) fms)
            = Some (transferred (fm_id actor) memberId actor)"
      unfolding membership_of_def
      by (rule single_filter_map [OF a [unfolded membership_of_def]]) (simp add: transferred_keeps)
    then have p2: "membership_of userId (fm_parent_id target) ?fms' = Some (demote actor)"
      using m' by (simp add: transferred_def)
    have p3: "admins_of (fm_parent_id target) ?fms' = [promote target]"
      if "admins_of (fm_parent_id target) fms = [actor]"
      unfolding m' using t that ne by (rule admins_of_transferred)
    from m' p1 p2 p3 show "?fms' = map (transferred (fm_id actor) memberId) fms
       \<and> member_by_id memberId ?fms' = Some (promote target)
       \<and> membership_of userId (fm_parent_id target) ?fms' = Some (demote actor)
       \<and> (admins_of (fm_parent_id target) fms = [actor] \<longrightarrow>
            admins_of (fm_parent_id target) ?fms' = [promote target])" by blast
  qed
  with t act a adm show ?thesis
    unfolding promote_def demote_def by blast
qed

text \<open>Ana, the only admin, transfers the role to Carla.\<close>

theorem transfer_admin_success_witness:
  "response (transfer_admin True True ''u1'' ''m3'' [ana, carla]) = Success
   \<and> member_by_id ''m3'' [ana, carla] = Some carla
   \<and> membership_of ''u1'' ''p1'' [ana, carla] = Some ana
   \<and> fm_id ana \<noteq> ''m3''
   \<and> admins_of ''p1'' [ana, carla] = [ana]
   \<and> members (transfer_admin True True ''u1'' ''m3'' [ana, carla]) = [demote ana, promote carla]
   \<and> admins_of ''p1'' (members (transfer_admin True True ''u1'' ''m3'' [ana, carla]))
       = [promote carla]"
proof -
  have ok: "response (transfer_admin True True ''u1'' ''m3'' [ana, carla]) = Success"
    by (simp add: transfer_admin_def family_defs example_defs)
  show ?thesis
    using ok transfer_admin_success [OF ok]
    by (simp add: transfer_admin_def admins_of_def transferred_def promote_def demote_def
          family_defs example_defs)
qed

text \<open>
  Claim C4 as stated fails: with Bruno as a second admin, Ana's transfer to Carla succeeds
  and leaves the care-recipient with two admins, Bruno and Carla.
\<close>

theorem transfer_admin_counterexample:
  "response (transfer_admin True True ''u1'' ''m3'' [ana, bruno, carla]) = Success
   \<and> admins_of ''p1'' (members (transfer_admin True True ''u1'' ''m3'' [ana, bruno, carla]))
       = [bruno, promote carla]
   \<and> bruno \<noteq> promote carla"
  by (simp add: transfer_admin_def admins_of_def promote_def demote_def family_defs example_defs)

section \<open>The last-admin invariant\<close>

text \<open>
  Four of the six operations cannot take the last active admin away. An invitation adds at
  most a pending row.
\<close>

lemma invite_member_members:
  "members (invite_member insert_ok new_id userId body profiles fms) = fms
   \<or> (\<exists>row. fm_status row = Pending
          \<and> members (invite_member insert_ok new_id userId body profiles fms) = fms @ [row])"
proof (cases "holds_admin_role userId (inv_parent_id body) fms")
  case False
  then show ?thesis by (simp add: invite_member_def answer_def)
next
  case adm: True
  show ?thesis
  proof (cases "single (filter (\<lambda>p. pr_email p = inv_email body) profiles)")
    case None
    with adm show ?thesis by (simp add: invite_member_def answer_def)
  next
    case (Some u)
    show ?thesis
    proof (cases "membership_of (pr_id u) (inv_parent_id body) fms")
      case None
      with adm Some show ?thesis
        by (simp add: invite_member_def answer_def insert_family_member_def Let_def)
    next
      case m: (Some m)
      with adm Some show ?thesis
        by (cases "fm_status m")
           (simp_all add: invite_member_def answer_def insert_family_member_def Let_def)
    qed
  qed
qed

lemma invite_member_keeps_active_admins:
  "active_admins p (members (invite_member insert_ok new_id userId body profiles fms))
     = active_admins p fms"
proof -
  consider "members (invite_member insert_ok new_id userId body profiles fms) = fms"
    | row where "fm_status row = Pending"
        "members (invite_member insert_ok new_id userId body profiles fms) = fms @ [row]"
    using invite_member_members [of insert_ok new_id userId body profiles fms] by blast
  then show ?thesis
  proof cases
    case 1
    then show ?thesis by simp
  next
    case 2
    then show ?thesis by (simp add: active_admins_def)
  qed
qed

text \<open>Accepting changes a pending row only in status and acceptance time.\<close>

lemma accept_invite_keeps_an_active_admin:
  assumes "active_admins p fms \<noteq> []"
  shows "active_admins p (members (accept_invite update_ok now userId inviteId fms)) \<noteq> []"
proof -
  let ?f = "\<lambda>r. if fm_id r = inviteId
                 then r\<lparr>fm_status := Active, fm_accepted_at := Some now\<rparr> else r"
  from assms obtain r where r: "r \<in> set fms" "fm_parent_id r = p" "fm_role r = Admin"
    "fm_status r = Active"
    by (auto simp: active_admins_def filter_empty_conv)
  then have "?f r \<in> set (active_admins p (map ?f fms))"
    by (auto simp: active_admins_def)
  then have "active_admins p (map ?f fms) \<noteq> []" by auto
  moreover have "members (accept_invite update_ok now userId inviteId fms) = fms
      \<or> members (accept_invite update_ok now userId inviteId fms) = map ?f fms"
    by (cases "pending_invite userId inviteId fms")
       (simp_all add: accept_invite_def answer_def)
  ultimately show ?thesis using assms by auto
qed

text \<open>Declining deletes a pending row (identifiers being distinct).\<close>

lemma decline_invite_keeps_active_admins:
  assumes ids: "distinct (map fm_id fms)"
  shows "active_admins p (members (decline_invite delete_ok userId inviteId fms))
           = active_admins p fms"
proof (cases "pending_invite userId inviteId fms")
  case None
  then show ?thesis by (simp add: decline_invite_def answer_def)
next
  case (Some inv)
  then have "filter (\<lambda>r. fm_id r = inviteId \<and> fm_user_id r = userId \<and> fm_status r = Pending) fms
               = [inv]"
    by (simp add: pending_invite_def single_SomeD)
  then have "inv \<in> set (filter (\<lambda>r. fm_id r = inviteId \<and> fm_user_id r = userId
                                      \<and> fm_status r = Pending) fms)" by simp
  then have inv: "inv \<in> set fms" "fm_id inv = inviteId" "fm_status inv = Pending" by simp_all
  have inj: "inj_on fm_id (set fms)" using ids by (simp add: distinct_map)
  have same: "r = inv" if "r \<in> set fms" "fm_id r = inviteId" for r
  proof (rule inj_onD [OF inj])
    show "fm_id r = fm_id inv" using that(2) inv(2) by simp
  qed (use that(1) inv(1) in simp_all)
  have "active_admins p (filter (\<lambda>r. fm_id r \<noteq> inviteId) fms) = active_admins p fms"
    unfolding active_admins_def filter_filter
  proof (rule filter_cong [OF refl])
    fix r assume r: "r \<in> set fms"
    show "(fm_id r \<noteq> inviteId \<and> fm_parent_id r = p \<and> fm_role r = Admin \<and> fm_status r = Active)
            = (fm_parent_id r = p \<and> fm_role r = Admin \<and> fm_status r = Active)"
    proof (cases "fm_id r = inviteId")
      case True
      with r have "r = inv" by (rule same)
      with inv(3) show ?thesis by simp
    next
      case False
      then show ?thesis by simp
    qed
  qed
  with Some show ?thesis by (simp add: decline_invite_def answer_def)
qed

text \<open>Removing an admin is refused when it is the only active one.\<close>

lemma remove_member_keeps_an_active_admin:
  assumes "active_admins p fms \<noteq> []"
  shows "active_admins p (members (remove_member delete_ok userId memberId fms)) \<noteq> []"
proof (cases "members (remove_member delete_ok userId memberId fms) = fms")
  case True
  with assms show ?thesis by simp
next
  case False
  then obtain m where m: "member_by_id memberId fms = Some m"
    by (cases "member_by_id memberId fms") (simp_all add: remove_member_def answer_def)
  from False m have del: "members (remove_member delete_ok userId memberId fms)
                 = filter (\<lambda>r. fm_id r \<noteq> memberId) fms"
    and guard: "\<not> (fm_role m = Admin \<and> length (active_admins (fm_parent_id m) fms) = 1)"
    by (auto simp: remove_member_def answer_def Let_def split: if_splits)
  have one: "filter (\<lambda>r. fm_id r = memberId) fms = [m]"
    using m by (simp add: member_by_id_def single_SomeD)
  let ?A = "active_admins p fms"
  have comm: "active_admins p (filter (\<lambda>r. fm_id r \<noteq> memberId) fms)
                = filter (\<lambda>r. fm_id r \<noteq> memberId) ?A"
    by (simp add: active_admins_def conj_commute)
  have sub: "filter (\<lambda>r. fm_id r = memberId) ?A
               = filter (\<lambda>r. fm_parent_id r = p \<and> fm_role r = Admin \<and> fm_status r = Active) [m]"
    unfolding one [symmetric] by (simp add: active_admins_def conj_commute)
  have len: "length ?A = length (filter (\<lambda>r. fm_id r = memberId) ?A)
                          + length (filter (\<lambda>r. fm_id r \<noteq> memberId) ?A)"
    by (rule sum_length_filter_compl [symmetric])
  have "length (filter (\<lambda>r. fm_id r \<noteq> memberId) ?A) \<noteq> 0"
  proof (cases "fm_parent_id m = p \<and> fm_role m = Admin \<and> fm_status m = Active")
    case True
    with guard have "length ?A \<noteq> 1" by simp
    moreover from assms have "length ?A \<noteq> 0" by simp
    moreover from True sub have "length (filter (\<lambda>r. fm_id r = memberId) ?A) = 1" by simp
    ultimately show ?thesis using len by linarith
  next
    case False
    with sub have "length (filter (\<lambda>r. fm_id r = memberId) ?A) = 0" by auto
    moreover from assms have "length ?A \<noteq> 0" by simp
    ultimately show ?thesis using len by linarith
  qed
  then show ?thesis unfolding del comm by simp
qed

text \<open>
  A transfer to a membership other than the requester's leaves the promoted target, which
  is active, as an admin.
\<close>

lemma transfer_admin_keeps_an_active_admin:
  assumes ok: "response (transfer_admin upgrade_ok downgrade_ok userId memberId fms) = Success"
    and t: "member_by_id memberId fms = Some target"
    and a: "membership_of userId (fm_parent_id target) fms = Some actor"
    and ne: "fm_id actor \<noteq> memberId"
  shows "active_admins (fm_parent_id target)
           (members (transfer_admin upgrade_ok downgrade_ok userId memberId fms)) \<noteq> []"
proof -
  from ok obtain target' actor' where
    t': "member_by_id memberId fms = Some target'" and act: "fm_status target' = Active"
    and a': "membership_of userId (fm_parent_id target') fms = Some actor'"
    and m: "members (transfer_admin upgrade_ok downgrade_ok userId memberId fms)
       = map (\<lambda>r. if fm_id r = fm_id actor' then demote r else r)
           (map (\<lambda>r. if fm_id r = memberId then promote r else r) fms)"
    by (rule transfer_admin_SuccessD)
  from t t' have tt: "target' = target" by simp
  with a a' have aa: "actor' = actor" by simp
  have m': "members (transfer_admin upgrade_ok downgrade_ok userId memberId fms)
              = map (transferred (fm_id actor) memberId) fms"
    unfolding m aa using ne by (rule transfer_two_maps)
  have tid: "fm_id target = memberId" using t by (rule member_by_id_idD)
  have "filter (\<lambda>r. fm_id r = memberId) fms = [target]"
    using t by (simp add: member_by_id_def single_SomeD)
  then have "target \<in> set (filter (\<lambda>r. fm_id r = memberId) fms)" by simp
  then have "target \<in> set fms" by simp
  then have "transferred (fm_id actor) memberId target
               \<in> set (map (transferred (fm_id actor) memberId) fms)" by simp
  moreover have "transferred (fm_id actor) memberId target = promote target"
    using tid ne by (simp add: transferred_def)
  ultimately have "promote target \<in> set (active_admins (fm_parent_id target)
              (map (transferred (fm_id actor) memberId) fms))"
    using act tt by (simp add: active_admins_def promote_def)
  then show ?thesis unfolding m' by auto
qed

text \<open>
  Claim C2 at a failing input. Ana is the only admin of \<^verbatim>\<open>p1\<close> and names her own
  membership as the target of a transfer. The handler promotes the row and then demotes the
  same row: the request succeeds, Ana and Carla are still active members, and no active
  admin is left.
\<close>

theorem transfer_admin_to_self_leaves_no_admin:
  "response (transfer_admin True True ''u1'' ''m1'' [ana, carla]) = Success
   \<and> members (transfer_admin True True ''u1'' ''m1'' [ana, carla]) = [demote ana, carla]
   \<and> filter (\<lambda>r. fm_parent_id r = ''p1'' \<and> fm_status r = Active)
        (members (transfer_admin True True ''u1'' ''m1'' [ana, carla])) = [demote ana, carla]
   \<and> active_admins ''p1'' (members (transfer_admin True True ''u1'' ''m1'' [ana, carla])) = []"
  by (simp add: transfer_admin_def promote_def demote_def family_defs example_defs)

section \<open>Inviting a member\<close>

text \<open>
  A requester who does not pass the admin test is refused, and the table is as before.
\<close>

lemma invite_member_refuses_non_admin:
  "\<not> holds_admin_role userId (inv_parent_id body) fms \<Longrightarrow>
     invite_member insert_ok new_id userId body profiles fms = answer NotAdmin fms []"
  by (simp add: invite_member_def)

text \<open>
  The branches of the handler for a requester who passes the admin test. When no profile
  has the given email the request fails with \<open>UserNotFound\<close>. When the invited user has
  an active membership for the care-recipient it fails with \<open>AlreadyMember\<close>, when a
  pending one with \<open>InvitePending\<close>, both with status 400. When the pair has no
  membership, the new identifier is fresh and the store performs the insert, the request
  appends a pending membership with the requested role, whose flags are the explicit ones
  when given and otherwise the defaults of the role.
\<close>

lemma invite_member_outcomes:
  assumes admin: "holds_admin_role userId (inv_parent_id body) fms"
  shows
   "(single (filter (\<lambda>p. pr_email p = inv_email body) profiles) = None \<longrightarrow>
       invite_member insert_ok new_id userId body profiles fms = answer UserNotFound fms [])
  \<and> (\<forall>invitedUser.
       single (filter (\<lambda>p. pr_email p = inv_email body) profiles) = Some invitedUser \<longrightarrow>
         (map_option fm_status (membership_of (pr_id invitedUser) (inv_parent_id body) fms)
            = Some Active \<longrightarrow>
            invite_member insert_ok new_id userId body profiles fms = answer AlreadyMember fms [])
       \<and> (map_option fm_status (membership_of (pr_id invitedUser) (inv_parent_id body) fms)
            = Some Pending \<longrightarrow>
            invite_member insert_ok new_id userId body profiles fms = answer InvitePending fms [])
       \<and> (filter (\<lambda>r. fm_parent_id r = inv_parent_id body \<and> fm_user_id r = pr_id invitedUser) fms = []
            \<and> filter (\<lambda>r. fm_id r = new_id) fms = [] \<and> insert_ok \<longrightarrow>
            invite_member insert_ok new_id userId body profiles fms
              = answer Created
                  (fms @ [\<lparr>fm_id = new_id, fm_parent_id = inv_parent_id body,
                           fm_user_id = pr_id invitedUser, fm_role = inv_role body,
                           fm_permissions =
                             (case inv_permissions body of
                                None \<Rightarrow> default_permissions (inv_role body)
                              | Some p \<Rightarrow> p),
                           fm_status = Pending, fm_invited_by = Some userId,
                           fm_accepted_at = None\<rparr>])
                  [pr_id invitedUser]))
  \<and> default_permissions Admin = \<lparr>can_view = True, can_edit = True, can_delete = True\<rparr>
  \<and> default_permissions Editor = \<lparr>can_view = True, can_edit = True, can_delete = False\<rparr>
  \<and> default_permissions Viewer = \<lparr>can_view = True, can_edit = False, can_delete = False\<rparr>
  \<and> status_code AlreadyMember = 400 \<and> status_code InvitePending = 400"
proof -
  have a: "single (filter (\<lambda>p. pr_email p = inv_email body) profiles) = None \<Longrightarrow>
       invite_member insert_ok new_id userId body profiles fms = answer UserNotFound fms []"
    using admin by (simp add: invite_member_def)
  have st: "\<exists>m. membership_of (pr_id u) (inv_parent_id body) fms = Some m \<and> fm_status m = x"
    if "map_option fm_status (membership_of (pr_id u) (inv_parent_id body) fms) = Some x"
    for u :: profile and x
    using that by auto
  have b: "invite_member insert_ok new_id userId body profiles fms = answer AlreadyMember fms []"
    if u: "single (filter (\<lambda>p. pr_email p = inv_email body) profiles) = Some u"
      and i: "map_option fm_status (membership_of (pr_id u) (inv_parent_id body) fms) = Some Active"
    for u
  proof -
    from st [OF i] obtain m where
      "membership_of (pr_id u) (inv_parent_id body) fms = Some m" "fm_status m = Active" by blast
    with admin u show ?thesis by (simp add: invite_member_def)
  qed
  have c: "invite_member insert_ok new_id userId body profiles fms = answer InvitePending fms []"
    if u: "single (filter (\<lambda>p. pr_email p = inv_email body) profiles) = Some u"
      and i: "map_option fm_status (membership_of (pr_id u) (inv_parent_id body) fms) = Some Pending"
    for u
  proof -
    from st [OF i] obtain m where
      "membership_of (pr_id u) (inv_parent_id body) fms = Some m" "fm_status m = Pending" by blast
    with admin u show ?thesis by (simp add: invite_member_def)
  qed
  have e: "invite_member insert_ok new_id userId body profiles fms
              = answer Created
                  (fms @ [\<lparr>fm_id = new_id, fm_parent_id = inv_parent_id body,
                           fm_user_id = pr_id u, fm_role = inv_role body,
                           fm_permissions =
                             (case inv_permissions body of
                                None \<Rightarrow> default_permissions (inv_role body)
                              | Some p \<Rightarrow> p),
                           fm_status = Pending, fm_invited_by = Some userId,
                           fm_accepted_at = None\<rparr>])
                  [pr_id u]"
    if "single (filter (\<lambda>p. pr_email p = inv_email body) profiles) = Some u"
      "filter (\<lambda>r. fm_parent_id r = inv_parent_id body \<and> fm_user_id r = pr_id u) fms = []"
      "filter (\<lambda>r. fm_id r = new_id) fms = []" "insert_ok" for u
    using admin that
    by (cases "inv_permissions body")
       (simp_all add: invite_member_def insert_family_member_def membership_of_def Let_def)
  have f: "default_permissions Admin = \<lparr>can_view = True, can_edit = True, can_delete = True\<rparr>"
    "default_permissions Editor = \<lparr>can_view = True, can_edit = True, can_delete = False\<rparr>"
    "default_permissions Viewer = \<lparr>can_view = True, can_edit = False, can_delete = False\<rparr>"
    by (simp_all add: default_permissions_def)
  from a b c e f show ?thesis by simp
qed


section \<open>The admin test and the status of the requester\<close>

text \<open>The admin test does not read the status column.\<close>

lemma holds_admin_role_ignores_status:
  "holds_admin_role userId parentId (map (\<lambda>r. r\<lparr>fm_status := s\<rparr>) fms)
     = holds_admin_role userId parentId fms"
proof -
  have "filter (\<lambda>r. fm_parent_id r = parentId \<and> fm_user_id r = userId)
          (map (\<lambda>r. r\<lparr>fm_status := s\<rparr>) fms)
        = map (\<lambda>r. r\<lparr>fm_status := s\<rparr>)
            (filter (\<lambda>r. fm_parent_id r = parentId \<and> fm_user_id r = userId) fms)"
    by (simp add: filter_map comp_def)
  then show ?thesis
    by (cases "filter (\<lambda>r. fm_parent_id r = parentId \<and> fm_user_id r = userId) fms"
          rule: single.cases)
       (simp_all add: holds_admin_role_def membership_of_def)
qed

text \<open>
  Claim C9. Dora's membership has role admin and status pending. She invites Edu, and
  the pending membership of Edu is inserted and Edu notified; she turns the admin Ana into
  a viewer; she transfers the admin role to Carla, who becomes admin with all flags while
  Dora's own row becomes editor. Each request succeeds and has its whole effect on the
  table, and the same holds when her membership is inactive.
\<close>

theorem pending_admin_passes_admin_tests:
  "fm_user_id dora = ''u4'' \<and> fm_role dora = Admin \<and> fm_status dora = Pending
   \<and> invite_member True ''m5'' ''u4''
        \<lparr>inv_parent_id = ''p1'', inv_email = ''edu@example.com'', inv_role = Viewer,
         inv_permissions = None\<rparr> registered [ana, carla, dora]
       = \<lparr>response = Created,
          members =
            [ana, carla, dora,
             \<lparr>fm_id = ''m5'', fm_parent_id = ''p1'', fm_user_id = ''u5'', fm_role = Viewer,
              fm_permissions = \<lparr>can_view = True, can_edit = False, can_delete = False\<rparr>,
              fm_status = Pending, fm_invited_by = Some ''u4'', fm_accepted_at = None\<rparr>],
          notified = [''u5'']\<rparr>
   \<and> update_permissions True ''u4'' ''m1'' \<lparr>upd_role = Some Viewer, upd_permissions = None\<rparr>
        [ana, carla, dora]
       = \<lparr>response = Success, members = [ana\<lparr>fm_role := Viewer\<rparr>, carla, dora],
          notified = [''u1'']\<rparr>
   \<and> transfer_admin True True ''u4'' ''m3'' [ana, carla, dora]
       = \<lparr>response = Success,
          members =
            [ana,
             carla\<lparr>fm_role := Admin,
                   fm_permissions := \<lparr>can_view = True, can_edit = True, can_delete = True\<rparr>\<rparr>,
             dora\<lparr>fm_role := Editor,
                  fm_permissions := \<lparr>can_view = True, can_edit = True, can_delete = False\<rparr>\<rparr>],
          notified = [''u3'']\<rparr>
   \<and> invite_member True ''m5'' ''u4''
        \<lparr>inv_parent_id = ''p1'', inv_email = ''edu@example.com'', inv_role = Viewer,
         inv_permissions = None\<rparr> registered [ana, carla, dora\<lparr>fm_status := Inactive\<rparr>]
       = \<lparr>response = Created,
          members =
            [ana, carla, dora\<lparr>fm_status := Inactive\<rparr>,
             \<lparr>fm_id = ''m5'', fm_parent_id = ''p1'', fm_user_id = ''u5'', fm_role = Viewer,
              fm_permissions = \<lparr>can_view = True, can_edit = False, can_delete = False\<rparr>,
              fm_status = Pending, fm_invited_by = Some ''u4'', fm_accepted_at = None\<rparr>],
          notified = [''u5'']\<rparr>
   \<and> update_permissions True ''u4'' ''m1'' \<lparr>upd_role = Some Viewer, upd_permissions = None\<rparr>
        [ana, carla, dora\<lparr>fm_status := Inactive\<rparr>]
       = \<lparr>response = Success,
          members = [ana\<lparr>fm_role := Viewer\<rparr>, carla, dora\<lparr>fm_status := Inactive\<rparr>],
          notified = [''u1'']\<rparr>
   \<and> transfer_admin True True ''u4'' ''m3'' [ana, carla, dora\<lparr>fm_status := Inactive\<rparr>]
       = \<lparr>response = Success,
          members =
            [ana,
             carla\<lparr>fm_role := Admin,
                   fm_permissions := \<lparr>can_view = True, can_edit = True, can_delete = True\<rparr>\<rparr>,
             dora\<lparr>fm_role := Editor, fm_status := Inactive,
                  fm_permissions := \<lparr>can_view = True, can_edit = True, can_delete = False\<rparr>\<rparr>],
          notified = [''u3'']\<rparr>"
  by (simp add: invite_member_def update_permissions_def transfer_admin_def apply_updates_def
        insert_family_member_def default_permissions_def promote_def demote_def family_defs
        example_defs)

section \<open>Admins and the permission flags\<close>

text \<open>The middleware lets an active admin pass whatever the flags of the membership are.\<close>

lemma checkFamilyPermission_admin:
  assumes "single (filter (\<lambda>r. fm_parent_id r = pid \<and> fm_user_id r = userId
                               \<and> fm_status r = Active) fms) = Some m"
    and "fm_role m = Admin"
  shows "checkFamilyPermission permission (Some userId) (Some pid) fms = Next"
  using assms by (simp add: checkFamilyPermission_def)

text \<open>Fabio's membership arises from an invitation by Gil and its acceptance.\<close>

lemma admin_without_edit_flag_reachable:
  "members (invite_member True ''m6'' ''u7''
              \<lparr>inv_parent_id = ''p2'', inv_email = ''fabio@example.com'', inv_role = Admin,
               inv_permissions = Some view_only\<rparr> registered [gil])
     = [gil, fabio\<lparr>fm_status := Pending, fm_accepted_at := None\<rparr>]
   \<and> members (accept_invite True 3 ''u6'' ''m6''
                [gil, fabio\<lparr>fm_status := Pending, fm_accepted_at := None\<rparr>])
     = [gil, fabio]"
  by (simp add: invite_member_def accept_invite_def pending_invite_def insert_family_member_def
        family_defs example_defs)

text \<open>
  Claim C5 at a failing input. Fabio is an active admin of \<^verbatim>\<open>p2\<close> whose stored flags
  grant viewing only. The middleware lets him edit; the status route of the appointments,
  which reads the flag alone, refuses him and leaves the appointment as it is.
\<close>

theorem admin_without_edit_flag_refused:
  "fm_role fabio = Admin \<and> fm_status fabio = Active \<and> \<not> can_edit (fm_permissions fabio)
   \<and> checkFamilyPermission Edit (Some ''u6'') (Some ''p2'') [gil, fabio] = Next
   \<and> update_appointment_status True ''u6'' ''a1'' Completed (Some ''ok'') [gil, fabio] [consulta]
       = \<lparr>st_response = NoPermission, st_appointments = [consulta], st_notified = []\<rparr>"
  by (simp add: checkFamilyPermission_def update_appointment_status_def family_defs example_defs)

section \<open>The appointment status job\<close>

text \<open>
  Claim C8. When the store performs the update, the job keeps the number of appointments,
  sets the status of an appointment to missed, and nothing else of it, when the appointment
  is scheduled and its instant is before now, and leaves every other appointment exactly
  as it is.
\<close>

theorem appointment_status_job_transitions:
  assumes ok: "update_ok" and i: "i < length appts"
  shows "length (appointment_status_job update_ok now appts) = length appts
       \<and> (apt_status (appts ! i) = Scheduled \<and> apt_scheduled_at (appts ! i) < now \<longrightarrow>
            appointment_status_job update_ok now appts ! i = (appts ! i)\<lparr>apt_status := Missed\<rparr>)
       \<and> (apt_status (appts ! i) \<noteq> Scheduled \<or> now \<le> apt_scheduled_at (appts ! i) \<longrightarrow>
            appointment_status_job update_ok now appts ! i = appts ! i)"
  using ok i by (auto simp: appointment_status_job_def)

text \<open>At instant 2000: one past scheduled, one past completed, one future scheduled.\<close>

theorem appointment_status_job_transitions_witness:
  "appointment_status_job True 2000 [consulta, realizada, futura]
     = [consulta\<lparr>apt_status := Missed\<rparr>, realizada, futura]
   \<and> apt_status consulta = Scheduled \<and> apt_scheduled_at consulta < 2000
   \<and> apt_status realizada \<noteq> Scheduled \<and> 2000 \<le> apt_scheduled_at futura"
proof -
  have l: "(0::nat) < length [consulta, realizada, futura]"
    "(1::nat) < length [consulta, realizada, futura]" "(2::nat) < length [consulta, realizada, futura]"
    by simp_all
  show ?thesis
    using appointment_status_job_transitions [OF TrueI l(1), of 2000]
      appointment_status_job_transitions [OF TrueI l(2), of 2000]
      appointment_status_job_transitions [OF TrueI l(3), of 2000]
    by (simp add: appointment_status_job_def example_defs)
qed

section \<open>Creating a notification\<close>

text \<open>Pushing changes no notification row.\<close>

lemma push_one_notifications: "notifications (push_one env pl db sub) = notifications db"
  by (simp add: push_one_def Let_def split: push_outcome.split)

lemma foldl_push_one_notifications:
  "notifications (foldl (push_one env pl) db subs) = notifications db"
  by (induction subs arbitrary: db) (simp_all add: push_one_notifications)

lemma sendPushNotification_notifications:
  "notifications (sendPushNotification env userId pl db) = notifications db"
  by (simp add: sendPushNotification_def Let_def foldl_push_one_notifications)

lemma push_one_subscriptions:
  "push_subscriptions (push_one env pl db sub)
     = (if env_push env sub pl = SendFailed (Some 410)
        then deactivate (sub_id sub) (push_subscriptions db) else push_subscriptions db)"
  by (simp add: push_one_def Let_def split: push_outcome.split)

lemma foldl_push_one_subscriptions:
  "push_subscriptions (foldl (push_one env pl) db subs)
     = map (\<lambda>s. if sub_id s \<in> sub_id ` {x \<in> set subs. env_push env x pl = SendFailed (Some 410)}
                 then s\<lparr>sub_is_active := False\<rparr> else s) (push_subscriptions db)"
proof (induction subs arbitrary: db)
  case Nil
  then show ?case by (simp add: map_idI)
next
  case (Cons x xs)
  show ?case
  proof (cases "env_push env x pl = SendFailed (Some 410)")
    case True
    then show ?thesis
      by (simp add: Cons.IH push_one_subscriptions deactivate_def) auto
  next
    case False
    then have "{y \<in> set (x # xs). env_push env y pl = SendFailed (Some 410)}
                 = {y \<in> set xs. env_push env y pl = SendFailed (Some 410)}" by auto
    with False show ?thesis by (simp add: Cons.IH push_one_subscriptions)
  qed
qed

lemma sendPushNotification_subscriptions:
  assumes ids: "distinct (map sub_id (push_subscriptions db))"
  shows "push_subscriptions (sendPushNotification env userId pl db)
     = map (\<lambda>s. if sub_user_id s = userId \<and> sub_is_active s
                     \<and> env_push env s pl = SendFailed (Some 410)
                 then s\<lparr>sub_is_active := False\<rparr> else s) (push_subscriptions db)"
proof -
  let ?subs = "filter (\<lambda>s. sub_user_id s = userId \<and> sub_is_active s) (push_subscriptions db)"
  have "sendPushNotification env userId pl db = foldl (push_one env pl) db ?subs"
    by (simp add: sendPushNotification_def Let_def)
  then have "push_subscriptions (sendPushNotification env userId pl db)
     = map (\<lambda>s. if sub_id s \<in> sub_id ` {x \<in> set ?subs. env_push env x pl = SendFailed (Some 410)}
                 then s\<lparr>sub_is_active := False\<rparr> else s) (push_subscriptions db)"
    by (simp only: foldl_push_one_subscriptions)
  also have "\<dots> = map (\<lambda>s. if sub_user_id s = userId \<and> sub_is_active s
                     \<and> env_push env s pl = SendFailed (Some 410)
                 then s\<lparr>sub_is_active := False\<rparr> else s) (push_subscriptions db)"
  proof (rule map_cong [OF refl])
    fix s assume s: "s \<in> set (push_subscriptions db)"
    have inj: "inj_on sub_id (set (push_subscriptions db))"
      using ids by (simp add: distinct_map)
    have "sub_id s \<in> sub_id ` {x \<in> set ?subs. env_push env x pl = SendFailed (Some 410)}
          \<longleftrightarrow> sub_user_id s = userId \<and> sub_is_active s
                \<and> env_push env s pl = SendFailed (Some 410)"
      using s inj by (auto dest: inj_onD)
    then show "(if sub_id s \<in> sub_id ` {x \<in> set ?subs. env_push env x pl = SendFailed (Some 410)}
                 then s\<lparr>sub_is_active := False\<rparr> else s)
             = (if sub_user_id s = userId \<and> sub_is_active s
                     \<and> env_push env s pl = SendFailed (Some 410)
                 then s\<lparr>sub_is_active := False\<rparr> else s)" by simp
  qed
  finally show ?thesis .
qed

text \<open>
  Claim C7, as amended. When the store accepts the insert, the call appends exactly the
  one notification row, whatever the push channel answers; and, the identifiers of the
  subscriptions being distinct, it deactivates exactly those active subscriptions of the
  user whose delivery fails with status 410 and leaves every other subscription, of this
  user and of any other, as it is.
\<close>

theorem createNotification_persists:
  assumes ins: "env_insert_ok env (notification_row userId t title message d)"
    and ids: "distinct (map sub_id (push_subscriptions db))"
  shows "notifications (createNotification env userId t title message d db)
           = notifications db @ [notification_row userId t title message d]
       \<and> push_subscriptions (createNotification env userId t title message d db)
           = map (\<lambda>s. if sub_user_id s = userId \<and> sub_is_active s
                          \<and> env_push env s (push_payload t title message d) = SendFailed (Some 410)
                       then s\<lparr>sub_is_active := False\<rparr> else s) (push_subscriptions db)"
proof -
  let ?db = "db\<lparr>notifications := notifications db @ [notification_row userId t title message d]\<rparr>"
  have c: "createNotification env userId t title message d db
        = sendPushNotification env userId (push_payload t title message d) ?db"
    using ins by (simp add: createNotification_def createNotification_try_def Let_def)
  have "distinct (map sub_id (push_subscriptions ?db))" using ids by simp
  from sendPushNotification_subscriptions [OF this]
  show ?thesis unfolding c by (simp add: sendPushNotification_notifications)
qed

text \<open>
  Ana is notified. Her phone's endpoint is gone: that subscription is deactivated, her
  tablet's and Bruno's are untouched, and the row is stored.
\<close>

theorem createNotification_persists_witness:
  "env_insert_ok canal (notification_row ''u1'' Family ''Convite'' ''Oi'' None)
   \<and> distinct (map sub_id (push_subscriptions assinaturas))
   \<and> env_push canal celular (push_payload Family ''Convite'' ''Oi'' None) = SendFailed (Some 410)
   \<and> notifications (createNotification canal ''u1'' Family ''Convite'' ''Oi'' None assinaturas)
       = [notification_row ''u1'' Family ''Convite'' ''Oi'' None]
   \<and> push_subscriptions (createNotification canal ''u1'' Family ''Convite'' ''Oi'' None assinaturas)
       = [celular\<lparr>sub_is_active := False\<rparr>, tablet, outro]"
proof -
  have ins: "env_insert_ok canal (notification_row ''u1'' Family ''Convite'' ''Oi'' None)"
    by (simp add: canal_def)
  have ids: "distinct (map sub_id (push_subscriptions assinaturas))"
    by (simp add: example_defs)
  show ?thesis
    using ins ids createNotification_persists [OF ins ids]
    by (simp add: example_defs)
qed

text \<open>
  Claim C7 as stated fails: when the store rejects the insert, the call stores no row, and
  only logs the error.
\<close>

theorem createNotification_counterexample:
  "notifications (createNotification fora ''u1'' Family ''Convite'' ''Oi'' None assinaturas) = []
   \<and> console_error (createNotification fora ''u1'' Family ''Convite'' ''Oi'' None assinaturas)
       = [''Error creating notification:'']"
  by (simp add: createNotification_def createNotification_try_def example_defs)

text \<open>
  Claim C10. When the store rejects the insert, the \<^verbatim>\<open>try\<close> block throws, the method
  catches the error, logs it and returns: the state the caller gets back differs from the
  one before only by the logged line, and has no new notification row.
\<close>

theorem createNotification_swallows_insert_failure:
  assumes "\<not> env_insert_ok env (notification_row userId t title message d)"
  shows "createNotification_try env userId t title message d db = Inl StoreError
       \<and> createNotification env userId t title message d db
           = db\<lparr>console_error := console_error db @ [''Error creating notification:'']\<rparr>
       \<and> notifications (createNotification env userId t title message d db) = notifications db"
  using assms by (simp add: createNotification_def createNotification_try_def Let_def)

theorem createNotification_swallows_insert_failure_witness:
  "\<not> env_insert_ok fora (notification_row ''u2'' System ''Aviso'' ''Teste'' None)
   \<and> createNotification_try fora ''u2'' System ''Aviso'' ''Teste'' None vazio = Inl StoreError
   \<and> createNotification fora ''u2'' System ''Aviso'' ''Teste'' None vazio
       = vazio\<lparr>console_error := [''Error creating notification:'']\<rparr>
   \<and> notifications (createNotification fora ''u2'' System ''Aviso'' ''Teste'' None vazio) = []"
proof -
  have f: "\<not> env_insert_ok fora (notification_row ''u2'' System ''Aviso'' ''Teste'' None)"
    by (simp add: fora_def)
  show ?thesis
    using f createNotification_swallows_insert_failure [OF f, of vazio]
    by (simp add: vazio_def)
qed

section \<open>The medication reminder\<close>

text \<open>
  A time is due exactly when its hour field is the current hour and its minute field is
  the current minute plus five.
\<close>

lemma due_in_five_iff:
  "due_in_five env currentHour currentMinute time
     \<longleftrightarrow> (\<exists>rest. map (Number env) (split_on CHR '':'' time)
                   = Some currentHour # Some (currentMinute + 5) # rest)"
proof (cases "map (Number env) (split_on CHR '':'' time)")
  case Nil
  then show ?thesis by (simp add: due_in_five_def)
next
  case outer: (Cons a as)
  show ?thesis
  proof (cases as)
    case Nil
    with outer show ?thesis by (cases a) (simp_all add: due_in_five_def)
  next
    case (Cons b rest)
    with outer show ?thesis by (cases a; cases b) (auto simp: due_in_five_def)
  qed
qed

text \<open>
  Nothing is due for 08:00 at 07:54 or 07:56, nor for 00:02 at 23:57; 08:05 is due at
  08:00.
\<close>

lemma reminder_window_examples:
  "\<not> due_in_five env 7 54 ''08:00'' \<and> \<not> due_in_five env 7 56 ''08:00''
   \<and> \<not> due_in_five env 23 57 ''00:02'' \<and> due_in_five env 8 0 ''08:05''"
  by (simp add: due_in_five_def Number_def digit_of_def)

text \<open>
  When a reminder is sent it goes to every membership of the care-recipient, the pending
  one included: with a dose at 08:05 and the clock at 08:00, Ana, Carla and the invited
  Dora are notified.
\<close>

lemma reminder_reaches_pending_member:
  "map ntf_user_id
     (notifications
        (sendMedicationReminders canal 8 0
           (farmacia\<lparr>medications := [losartana\<lparr>med_times := Some [''08:05'']\<rparr>]\<rparr>)))
   = [''u1'', ''u3'', ''u4'']"
  by (simp add: sendMedicationReminders_def due_in_five_def Number_def digit_of_def
        createNotification_def createNotification_try_def sendPushNotification_def
        notification_row_def example_defs)

text \<open>
  Claim C1 at a failing input. The medication is due at 08:00 and 20:00 and the clock
  reads 07:55, five minutes before the first dose. The hours 8 and 7 differ, so the time
  is not taken to be due, and the scan leaves the store as it found it: no notification
  for any member, whatever the store and the push channel would answer.
\<close>

theorem reminder_not_sent_across_the_hour:
  "\<not> due_in_five env 7 55 ''08:00''
   \<and> sendMedicationReminders env 7 55 farmacia = farmacia
   \<and> notifications (sendMedicationReminders env 7 55 farmacia) = []"
  by (simp add: sendMedicationReminders_def due_in_five_def Number_def digit_of_def example_defs)
end
